theory Spec2Isabelle
  imports Main
begin

section \<open>JavaScript values\<close>

text \<open>
  A value that may be \<^verbatim>\<open>undefined\<close> or \<^verbatim>\<open>null\<close>. TypeScript without strict null checks
  admits both at every type, and the code tests for them separately.
\<close>

datatype 'a nullable = Undefined | Null | Defined 'a

text \<open>
  What a \<^verbatim>\<open>throw\<close> or an errored observable carries: \<^verbatim>\<open>new Error(msg)\<close>, the
  \<^verbatim>\<open>TypeError\<close> of a property read on \<^verbatim>\<open>null\<close>/\<^verbatim>\<open>undefined\<close>, the \<^verbatim>\<open>URIError\<close> of
  \<^verbatim>\<open>encodeURI\<close> on a string that is not well-formed, the \<^verbatim>\<open>EmptyError\<close> of RxJS
  \<^verbatim>\<open>last()\<close> on a source that completes without a value, and the plain \<^verbatim>\<open>false\<close> of
  \<^verbatim>\<open>Observable.throw(false)\<close>.
\<close>

datatype thrown = Error string | TypeError | URIError | EmptyError | Thrown_false

text \<open>The template literal \<^verbatim>\<open>`${v}`\<close> of a string-typed value.\<close>

fun template :: "string nullable \<Rightarrow> string" where
  "template (Defined s) = s"
| "template Null = ''null''"
| "template Undefined = ''undefined''"

text \<open>Truthiness of a string-typed value: only a string of positive length is truthy.\<close>

fun truthy :: "string nullable \<Rightarrow> bool" where
  "truthy (Defined s) = (s \<noteq> [])"
| "truthy Null = False"
| "truthy Undefined = False"

subsection \<open>shared/empty.util\<close>

text \<open>
  Modelled from the spec: the helpers \<^verbatim>\<open>isNotNull\<close>, \<^verbatim>\<open>isNotUndefined\<close> and
  \<^verbatim>\<open>isNotEmpty\<close> of \<^verbatim>\<open>shared/empty.util\<close> are imported by the service and are not among
  the sources. \<^verbatim>\<open>isNotNull\<close> and \<^verbatim>\<open>isNotUndefined\<close> compare with \<^verbatim>\<open>null\<close> and
  \<^verbatim>\<open>undefined\<close> only. A value is empty when it is \<^verbatim>\<open>null\<close> or \<^verbatim>\<open>undefined\<close>; a string
  is empty also when its length is 0; an object that has neither a size nor a length
  (a token object) is not empty.
\<close>

definition isNotNull :: "'a nullable \<Rightarrow> bool" where
  "isNotNull obj = (obj \<noteq> Null)"

definition isNotUndefined :: "'a nullable \<Rightarrow> bool" where
  "isNotUndefined obj = (obj \<noteq> Undefined)"

fun isNotEmpty_string :: "string nullable \<Rightarrow> bool" where
  "isNotEmpty_string (Defined s) = (length s \<noteq> 0)"
| "isNotEmpty_string Null = False"
| "isNotEmpty_string Undefined = False"

fun isNotEmpty_object :: "'a nullable \<Rightarrow> bool" where
  "isNotEmpty_object (Defined obj) = True"
| "isNotEmpty_object Null = False"
| "isNotEmpty_object Undefined = False"

section \<open>AuthService\<close>

subsection \<open>Data\<close>

text \<open>
  \<^verbatim>\<open>AuthTokenInfo\<close>: the token object kept in the cookie. The cookie is parsed at run time,
  so the \<^verbatim>\<open>accessToken\<close> property may be missing (\<open>None\<close>: the object has no own
  property of that name) or hold \<^verbatim>\<open>null\<close>/\<^verbatim>\<open>undefined\<close>.
\<close>

record AuthTokenInfo =
  accessToken :: "string nullable option"
  expiry :: int

text \<open>\<^verbatim>\<open>token.hasOwnProperty('accessToken')\<close> and the property read \<^verbatim>\<open>token.accessToken\<close>.\<close>

definition hasOwnProperty_accessToken :: "AuthTokenInfo \<Rightarrow> bool" where
  "hasOwnProperty_accessToken token = (accessToken token \<noteq> None)"

definition read_accessToken :: "AuthTokenInfo \<Rightarrow> string nullable" where
  "read_accessToken token = (case accessToken token of None \<Rightarrow> Undefined | Some v \<Rightarrow> v)"

text \<open>
  \<^verbatim>\<open>AuthStatus\<close>, with the two properties the service reads; an e-person is named by its
  identifier.
\<close>

type_synonym Eperson = string

record AuthStatus =
  authenticated :: bool
  eperson :: "Eperson list"

record HttpOptions =
  headers :: "(string \<times> string) list"

text \<open>
  The request-issuing collaborator. \<^verbatim>\<open>postToEndpoint(method, body, options)\<close> returns an
  observable of the backend's status; the model keeps what it delivers: the status, or
  the error of a failed request.
\<close>

record AuthRequestService =
  postToEndpoint :: "string \<Rightarrow> string \<Rightarrow> HttpOptions \<Rightarrow> thrown + AuthStatus"

text \<open>The router slice of the store: \<^verbatim>\<open>routerState.state.url\<close>.\<close>

record RouterStateSnapshot =
  url :: string

record RouterReducerState =
  state :: "RouterStateSnapshot nullable"
  navigationId :: nat

text \<open>The part of the global store the service selects from.\<close>

record AppState =
  router :: "RouterReducerState nullable"
  auth_authenticated :: bool
  auth_redirectUrl :: "string nullable"

text \<open>
  The service: the private flag \<^verbatim>\<open>_authenticated\<close>, the cookie storage (a lookup by key,
  \<^verbatim>\<open>undefined\<close> for a key that is not set), the store and the request service.
\<close>

record AuthService =
  private_authenticated :: bool
  storage :: "string \<Rightarrow> AuthTokenInfo nullable"
  store :: AppState
  authRequestService :: AuthRequestService

definition LOGIN_ROUTE :: string where
  "LOGIN_ROUTE = ''/login''"

text \<open>
  Modelled from the spec: the constant \<^verbatim>\<open>TOKENITEM\<close> of \<^verbatim>\<open>models/auth-token-info.model\<close>
  is not among the sources; it is the fixed key under which the token is kept.
\<close>

definition TOKENITEM :: string where
  "TOKENITEM = ''dsAuthInfo''"

subsection \<open>Token persistence\<close>

definition getToken :: "AuthService \<Rightarrow> AuthTokenInfo nullable" where
  "getToken this =
    (let token = storage this TOKENITEM in
     if isNotEmpty_object token then
       (case token of
          Defined t \<Rightarrow>
            if hasOwnProperty_accessToken t \<and> isNotEmpty_string (read_accessToken t)
            then token else Null
        | _ \<Rightarrow> Null)
     else Null)"

definition storeToken :: "AuthTokenInfo nullable \<Rightarrow> AuthService \<Rightarrow> AuthService" where
  "storeToken token this = this\<lparr>storage := (storage this)(TOKENITEM := token)\<rparr>"

definition removeToken :: "AuthService \<Rightarrow> AuthService" where
  "removeToken this = this\<lparr>storage := (storage this)(TOKENITEM := Undefined)\<rparr>"

text \<open>
  \<^verbatim>\<open>getAuthHeader\<close>. The read \<^verbatim>\<open>token.accessToken\<close> is guarded by \<^verbatim>\<open>isNotNull\<close> only, so an
  \<^verbatim>\<open>undefined\<close> token would raise a \<^verbatim>\<open>TypeError\<close>; the result is a sum to keep that branch.
\<close>

definition getAuthHeader :: "AuthService \<Rightarrow> thrown + string" where
  "getAuthHeader this =
    (let token = getToken this in
     if private_authenticated this \<and> isNotNull token then
       (case token of
          Defined t \<Rightarrow> Inr (''Bearer '' @ template (read_accessToken t))
        | _ \<Rightarrow> Inl TypeError)
     else Inr '''')"

text \<open>\<^verbatim>\<open>checkAuthenticationToken\<close>: \<^verbatim>\<open>Observable.of(token)\<close> or \<^verbatim>\<open>Observable.throw(false)\<close>.\<close>

definition checkAuthenticationToken :: "AuthService \<Rightarrow> thrown + AuthTokenInfo nullable" where
  "checkAuthenticationToken this =
    (let token = getToken this in
     if isNotEmpty_object token then Inr token else Inl Thrown_false)"

subsection \<open>Login\<close>

text \<open>
  \<^verbatim>\<open>authenticate\<close>. \<^verbatim>\<open>encodeURI\<close> is the platform's function and is a parameter; it
  throws on a string that is not well-formed, and then no request is issued. The
  \<^verbatim>\<open>map\<close> on the observable runs on a delivered status; an error of the request passes
  through. The call writes no field of the service, which is returned as it was.
\<close>

definition authenticate ::
  "(string \<Rightarrow> thrown + string) \<Rightarrow> string \<Rightarrow> string \<Rightarrow> AuthService \<Rightarrow> (thrown + AuthStatus) \<times> AuthService"
where
  "authenticate encodeURI user password this =
    (case encodeURI (''password='' @ password @ ''&user='' @ user) of
       Inl e \<Rightarrow> (Inl e, this)
     | Inr body \<Rightarrow>
         (let options = \<lparr>headers = [(''Content-Type'', ''application/x-www-form-urlencoded'')]\<rparr>
          in (case postToEndpoint (authRequestService this) ''login'' body options of
                Inr status \<Rightarrow>
                  if authenticated status then Inr status
                  else Inl (Error ''Invalid email or password'')
              | Inl e \<Rightarrow> Inl e,
              this)))"

subsection \<open>Redirect tracking\<close>

text \<open>
  Modelled from the spec: the auth reducer is not among the sources; on
  \<^verbatim>\<open>SetRedirectUrlAction(value)\<close> it stores \<open>value\<close> as the redirect URL of the store.
\<close>

definition setRedirectUrl :: "string nullable \<Rightarrow> AuthService \<Rightarrow> AuthService" where
  "setRedirectUrl v this = this\<lparr>store := (store this)\<lparr>auth_redirectUrl := v\<rparr>\<rparr>"

definition getRedirectUrl :: "AuthService \<Rightarrow> string nullable" where
  "getRedirectUrl this = auth_redirectUrl (store this)"

text \<open>
  The subscription set up in the constructor, run on one emission of the router slice:
  the two filters and the map of \<^verbatim>\<open>routeUrlObs\<close>, \<^verbatim>\<open>withLatestFrom\<close> the stored redirect
  URL, the last filter, and the subscriber that clears the redirect URL. An emission
  that a filter drops leaves the service as it was. A \<^verbatim>\<open>null\<close> router slice or snapshot
  passes \<^verbatim>\<open>isNotUndefined\<close> and then fails on the property read.
\<close>

definition routeChanged :: "AuthService \<Rightarrow> thrown + AuthService" where
  "routeChanged this =
    (let routerState = router (store this) in
     if isNotUndefined routerState then
       (case routerState of
          Defined rs \<Rightarrow>
            if isNotUndefined (state rs) then
              (case state rs of
                 Defined snapshot \<Rightarrow>
                   if url snapshot \<noteq> LOGIN_ROUTE then
                     (let routeUrl = url snapshot;
                          redirectUrl = getRedirectUrl this
                      in if isNotEmpty_string redirectUrl \<and> Defined routeUrl \<noteq> redirectUrl
                         then Inr (setRedirectUrl (Defined '''') this)
                         else Inr this)
                   else Inr this
               | _ \<Rightarrow> Inl TypeError)
            else Inr this
        | _ \<Rightarrow> Inl TypeError)
     else Inr this)"

section \<open>QualityAssuranceEventsComponent\<close>

subsection \<open>Data\<close>

text \<open>
  \<^verbatim>\<open>RemoteData\<close> as \<^verbatim>\<open>getFirstCompletedRemoteData()\<close> delivers it: completed, succeeded
  or not, with a payload that a failed request leaves \<^verbatim>\<open>undefined\<close>.
\<close>

record 'a RemoteData =
  hasSucceeded :: bool
  payload :: "'a nullable"

record Item =
  item_id :: "string nullable"
  item_handle :: "string nullable"

record SourceQualityAssuranceEventMessageObject =
  message_title :: "string nullable"
  pidHref :: "string nullable"

text \<open>
  A raw event. \<open>related\<close> and \<open>target\<close> are observables in the source; the model keeps
  the first completed \<^verbatim>\<open>RemoteData\<close> each of them delivers (the code reads both with
  \<^verbatim>\<open>?.\<close>, so either may be \<^verbatim>\<open>null\<close> or \<^verbatim>\<open>undefined\<close>).
\<close>

record QualityAssuranceEventObject =
  event_id :: string
  event_title :: string
  message :: SourceQualityAssuranceEventMessageObject
  related :: "Item RemoteData nullable"
  target :: "Item RemoteData nullable"

text \<open>The view-model \<^verbatim>\<open>QualityAssuranceEventData\<close>.\<close>

record QualityAssuranceEventData =
  event :: QualityAssuranceEventObject
  data_id :: string
  data_title :: string
  hasProject :: bool
  projectTitle :: "string nullable"
  projectId :: "string nullable"
  handle :: "string nullable"
  reason :: "string nullable"
  isRunning :: bool
  data_target :: "Item nullable"

record FindListOptions =
  currentPage :: nat
  elementsPerPage :: nat
  sort_field :: string

record 'a PaginatedList =
  totalElements :: int
  page :: "'a list"

text \<open>
  The REST data service: each function gives the completed \<^verbatim>\<open>RemoteData\<close> of the request.
\<close>

record QualityAssuranceEventDataService =
  rest_patchEvent ::
    "string \<Rightarrow> QualityAssuranceEventObject \<Rightarrow> string nullable \<Rightarrow> QualityAssuranceEventObject RemoteData"
  rest_getEventsByTopic ::
    "string \<Rightarrow> FindListOptions \<Rightarrow> QualityAssuranceEventObject PaginatedList RemoteData"
  rest_boundProject :: "string \<Rightarrow> string \<Rightarrow> QualityAssuranceEventObject RemoteData"
  rest_removeProject :: "string \<Rightarrow> QualityAssuranceEventObject RemoteData"

text \<open>
  What the component does to its collaborators, in order: notifications (by translation
  key), REST requests, the subscription to one event's \<open>related\<close> and \<open>target\<close>
  observables, values pushed on \<^verbatim>\<open>eventsUpdated$\<close>, and an error no subscriber handles.
\<close>

datatype effect =
    NotifySuccess string
  | NotifyError string
  | PatchEvent string string "string nullable"
  | GetEventsByTopic string
  | ResolveLinks string
  | ClearFindByTopicRequests
  | BoundProject string string
  | RemoveProject string
  | EventsUpdatedNext "nat list"
  | Unhandled thrown

text \<open>
  The component. View-models are objects shared by reference between the list held by
  \<^verbatim>\<open>eventsUpdated$\<close> and the handlers' \<^verbatim>\<open>eventData\<close> argument, so they live in a store
  \<open>objs\<close> and are named by reference; \<open>nextRef\<close> is the next unused reference.
  \<open>eventsUpdated\<close> is the current value of the \<^verbatim>\<open>BehaviorSubject\<close>, \<open>totalElementsS\<close>
  that of \<^verbatim>\<open>totalElements$\<close>. \<open>completion\<close> is the order in which the inner observables
  of \<^verbatim>\<open>mergeMap\<close> deliver (the scheduler's choice, not the component's).
\<close>

record Component =
  objs :: "nat \<Rightarrow> QualityAssuranceEventData"
  nextRef :: nat
  eventsUpdated :: "nat list"
  totalElementsS :: "int nullable"
  topic :: string
  findListOptions :: FindListOptions
  restService :: QualityAssuranceEventDataService
  completion :: "QualityAssuranceEventObject list \<Rightarrow> QualityAssuranceEventObject list"
  effects :: "effect list"

definition perform :: "effect \<Rightarrow> Component \<Rightarrow> Component" where
  "perform e this = this\<lparr>effects := effects this @ [e]\<rparr>"

definition modify :: "nat \<Rightarrow> (QualityAssuranceEventData \<Rightarrow> QualityAssuranceEventData) \<Rightarrow> Component \<Rightarrow> Component" where
  "modify r f this = this\<lparr>objs := (objs this)(r := f (objs this r))\<rparr>"

definition new_object :: "QualityAssuranceEventData \<Rightarrow> Component \<Rightarrow> nat \<times> Component" where
  "new_object d this =
    (nextRef this, this\<lparr>objs := (objs this)(nextRef this := d), nextRef := Suc (nextRef this)\<rparr>)"

definition eventsUpdated_next :: "nat list \<Rightarrow> Component \<Rightarrow> Component" where
  "eventsUpdated_next events this = perform (EventsUpdatedNext events) (this\<lparr>eventsUpdated := events\<rparr>)"

subsection \<open>Building the view-models\<close>

text \<open>Optional chaining: \<^verbatim>\<open>rd?.hasSucceeded\<close> as a condition, \<^verbatim>\<open>rd?.payload?.id\<close> and \<^verbatim>\<open>rd?.payload?.handle\<close>.\<close>

fun opt_hasSucceeded :: "'a RemoteData nullable \<Rightarrow> bool" where
  "opt_hasSucceeded (Defined rd) = hasSucceeded rd"
| "opt_hasSucceeded Null = False"
| "opt_hasSucceeded Undefined = False"

fun opt_payload_id :: "Item RemoteData nullable \<Rightarrow> string nullable" where
  "opt_payload_id (Defined rd) =
     (case payload rd of Defined item \<Rightarrow> item_id item | _ \<Rightarrow> Undefined)"
| "opt_payload_id Null = Undefined"
| "opt_payload_id Undefined = Undefined"

fun opt_payload_handle :: "Item RemoteData nullable \<Rightarrow> string nullable" where
  "opt_payload_handle (Defined rd) =
     (case payload rd of Defined item \<Rightarrow> item_handle item | _ \<Rightarrow> Undefined)"
| "opt_payload_handle Null = Undefined"
| "opt_payload_handle Undefined = Undefined"

text \<open>The callback of \<^verbatim>\<open>map\<close> inside \<^verbatim>\<open>fetchEvents\<close>, for one event and its two resolved links.\<close>

definition eventData ::
  "QualityAssuranceEventObject \<Rightarrow> Item RemoteData nullable \<Rightarrow> Item RemoteData nullable \<Rightarrow> QualityAssuranceEventData"
where
  "eventData ev relatedItemRD targetItemRD =
    (let data = \<lparr>event = ev,
                 data_id = event_id ev,
                 data_title = event_title ev,
                 hasProject = False,
                 projectTitle = Null,
                 projectId = Null,
                 handle = Null,
                 reason = Null,
                 isRunning = False,
                 data_target =
                   (case targetItemRD of
                      Defined rd \<Rightarrow> if hasSucceeded rd then payload rd else Null
                    | _ \<Rightarrow> Null)\<rparr>
     in if opt_hasSucceeded relatedItemRD \<and> truthy (opt_payload_id relatedItemRD)
        then data\<lparr>hasProject := True,
                  projectTitle := message_title (message ev),
                  projectId := opt_payload_id relatedItemRD,
                  handle := opt_payload_handle relatedItemRD\<rparr>
        else data)"

text \<open>The view-model built for an event from its own two links.\<close>

abbreviation built :: "QualityAssuranceEventObject \<Rightarrow> QualityAssuranceEventData" where
  "built ev \<equiv> eventData ev (related ev) (target ev)"

text \<open>
  \<^verbatim>\<open>mergeMap\<close> subscribes to the two links of every event of the page, in the order
  of the page.
\<close>

fun subscribe_links :: "QualityAssuranceEventObject list \<Rightarrow> Component \<Rightarrow> Component" where
  "subscribe_links [] this = this"
| "subscribe_links (ev # evs) this = subscribe_links evs (perform (ResolveLinks (event_id ev)) this)"

text \<open>
  \<^verbatim>\<open>scan\<close> over the delivered view-models: every one is a new object, appended to the
  accumulated list.
\<close>

fun scan_events :: "QualityAssuranceEventObject list \<Rightarrow> nat list \<Rightarrow> Component \<Rightarrow> nat list \<times> Component" where
  "scan_events [] acc this = (acc, this)"
| "scan_events (ev # evs) acc this =
    (let (r, this') = new_object (built ev) this
     in scan_events evs (acc @ [r]) this')"

text \<open>
  \<^verbatim>\<open>fetchEvents\<close>: the links of the whole page are subscribed, the view-models are
  delivered in the order \<open>completion\<close> gives, and \<^verbatim>\<open>last()\<close> gives the final
  accumulated list; it fails with \<^verbatim>\<open>EmptyError\<close> when nothing was delivered.
\<close>

definition fetchEvents :: "QualityAssuranceEventObject list \<Rightarrow> Component \<Rightarrow> (thrown + nat list) \<times> Component" where
  "fetchEvents events this =
    (let this1 = subscribe_links events this in
     case completion this events of
       [] \<Rightarrow> (Inl EmptyError, this1)
     | evs \<Rightarrow> (let (acc, this') = scan_events evs [] this1 in (Inr acc, this')))"

subsection \<open>Fetching a page\<close>

text \<open>
  \<^verbatim>\<open>getQualityAssuranceEvents\<close>. \<open>findListOptions\<close> stands for the options the
  pagination service delivers; with \<^verbatim>\<open>take(1)\<close> the pipeline runs for one delivery. The
  page request is made with the two links followed, the total is pushed on
  \<^verbatim>\<open>totalElements$\<close>, and the view-models are built only for a positive total. A failed
  request is thrown as an \<^verbatim>\<open>Error\<close>; the \<^verbatim>\<open>tap\<close> that clears the cached requests runs
  on a delivered list only.
\<close>

definition getQualityAssuranceEvents :: "Component \<Rightarrow> (thrown + nat list) \<times> Component" where
  "getQualityAssuranceEvents this =
    (let options = findListOptions this;
         rd = rest_getEventsByTopic (restService this) (topic this) options;
         this1 = perform (GetEventsByTopic (topic this)) this
     in if hasSucceeded rd then
          (case payload rd of
             Defined pl \<Rightarrow>
               (let this2 = this1\<lparr>totalElementsS := Defined (totalElements pl)\<rparr> in
                if totalElements pl > 0 then
                  (case fetchEvents (page pl) this2 of
                     (Inr events, this3) \<Rightarrow> (Inr events, perform ClearFindByTopicRequests this3)
                   | (Inl e, this3) \<Rightarrow> (Inl e, this3))
                else (Inr [], perform ClearFindByTopicRequests this2))
           | _ \<Rightarrow> (Inl TypeError, this1))
        else (Inl (Error (''Can'' @ [CHR 0x27] @ ''t retrieve Quality Assurance events from the Broker events REST service'')),
              this1))"

subsection \<open>Actions on one event\<close>

text \<open>
  \<^verbatim>\<open>executeAction\<close>, the call: it marks the event as running and issues the patch
  request. The response arrives later; the model gives, with the new state, the
  completed \<^verbatim>\<open>RemoteData\<close> that the request will deliver.
\<close>

definition executeAction ::
  "string \<Rightarrow> nat \<Rightarrow> Component \<Rightarrow> QualityAssuranceEventObject RemoteData \<times> Component"
where
  "executeAction action eventDataRef this =
    (let this1 = modify eventDataRef (\<lambda>d. d\<lparr>isRunning := True\<rparr>) this;
         d = objs this1 eventDataRef
     in (rest_patchEvent (restService this1) action (event d) (reason d),
         perform (PatchEvent action (event_id (event d)) (reason d)) this1))"

text \<open>
  The callbacks of \<^verbatim>\<open>executeAction\<close>, run when the response arrives, on the state the
  component has then (other calls and responses may have run since the call): the
  \<^verbatim>\<open>switchMap\<close> chooses the re-fetch or the list current at that moment, and the
  subscriber pushes the delivered list and clears the flag. The subscriber has no
  error callback: an error of the re-fetch reaches no handler, and the model records
  it as unhandled. The re-fetch reads nothing of the component after its request is
  issued, and the subscriber reads only the list the re-fetch delivers, so the
  delivery of the page is taken in the same step.
\<close>

definition executeAction_response ::
  "nat \<Rightarrow> QualityAssuranceEventObject RemoteData \<Rightarrow> Component \<Rightarrow> Component"
where
  "executeAction_response eventDataRef rd this =
    (let (result, this') =
           (if hasSucceeded rd then
              getQualityAssuranceEvents
                (perform (NotifySuccess ''quality-assurance.event.action.saved'') this)
            else
              (let this1 = perform (NotifyError ''quality-assurance.event.action.error'') this
               in (Inr (eventsUpdated this1), this1)))
     in case result of
          Inr events \<Rightarrow>
            modify eventDataRef (\<lambda>d. d\<lparr>isRunning := False\<rparr>) (eventsUpdated_next events this')
        | Inl e \<Rightarrow> perform (Unhandled e) this')"

text \<open>\<^verbatim>\<open>boundProject\<close> and \<^verbatim>\<open>removeProject\<close>, each with its response delivered in the same step.\<close>

definition boundProject :: "nat \<Rightarrow> string \<Rightarrow> string \<Rightarrow> string \<Rightarrow> Component \<Rightarrow> Component" where
  "boundProject eventDataRef projectId' projectTitle' projectHandle this =
    (let this1 = modify eventDataRef (\<lambda>d. d\<lparr>isRunning := True\<rparr>) this;
         d = objs this1 eventDataRef;
         rd = rest_boundProject (restService this1) (data_id d) projectId';
         this2 = perform (BoundProject (data_id d) projectId') this1;
         this3 =
           (if hasSucceeded rd then
              modify eventDataRef
                (\<lambda>d. d\<lparr>hasProject := True,
                        projectTitle := Defined projectTitle',
                        handle := Defined projectHandle,
                        projectId := Defined projectId'\<rparr>)
                (perform (NotifySuccess ''quality-assurance.event.project.bounded'') this2)
            else perform (NotifyError ''quality-assurance.event.project.error'') this2)
     in modify eventDataRef (\<lambda>d. d\<lparr>isRunning := False\<rparr>) this3)"

definition removeProject :: "nat \<Rightarrow> Component \<Rightarrow> Component" where
  "removeProject eventDataRef this =
    (let this1 = modify eventDataRef (\<lambda>d. d\<lparr>isRunning := True\<rparr>) this;
         d = objs this1 eventDataRef;
         rd = rest_removeProject (restService this1) (data_id d);
         this2 = perform (RemoveProject (data_id d)) this1;
         this3 =
           (if hasSucceeded rd then
              modify eventDataRef
                (\<lambda>d. d\<lparr>hasProject := False,
                        projectTitle := Null,
                        handle := Null,
                        projectId := Null\<rparr>)
                (perform (NotifySuccess ''quality-assurance.event.project.removed'') this2)
            else perform (NotifyError ''quality-assurance.event.project.error'') this2)
     in modify eventDataRef (\<lambda>d. d\<lparr>isRunning := False\<rparr>) this3)"

section \<open>Example inputs\<close>

text \<open>
  A service with a valid token in the cookie, on the route \<^verbatim>\<open>/home\<close> with the redirect
  URL \<^verbatim>\<open>/mydspace\<close> stored, and a backend that accepts one pair of credentials.
\<close>

definition example_token :: AuthTokenInfo where
  "example_token = \<lparr>accessToken = Some (Defined ''abc123''), expiry = 1700000000\<rparr>"

definition example_backend :: AuthRequestService where
  "example_backend =
    \<lparr>postToEndpoint = (\<lambda>endpoint body options.
        Inr \<lparr>authenticated = (endpoint = ''login'' \<and> body = ''password=secret&user=ada''),
             eperson = [''ada'']\<rparr>)\<rparr>"

definition example_service :: AuthService where
  "example_service =
    \<lparr>private_authenticated = True,
     storage = (\<lambda>key. if key = TOKENITEM then Defined example_token else Undefined),
     store = \<lparr>router = Defined \<lparr>state = Defined \<lparr>url = ''/home''\<rparr>, navigationId = 1\<rparr>,
              auth_authenticated = True,
              auth_redirectUrl = Defined ''/mydspace''\<rparr>,
     authRequestService = example_backend\<rparr>"

text \<open>
  \<^verbatim>\<open>encodeURI\<close> on the inputs of the examples: it leaves a string of ASCII letters,
  \<^verbatim>\<open>=\<close> and \<^verbatim>\<open>&\<close> as it is, and throws on a string that holds an unpaired surrogate
  (here: the byte that starts the encoding of one).
\<close>

definition example_encodeURI :: "string \<Rightarrow> thrown + string" where
  "example_encodeURI s = (if CHR 0xED \<in> set s then Inl URIError else Inr s)"

text \<open>The same service with a backend whose login request fails.\<close>

definition service_backend_down :: AuthService where
  "service_backend_down =
    example_service\<lparr>authRequestService :=
      \<lparr>postToEndpoint = (\<lambda>endpoint body options. Inl (Error ''Http failure response''))\<rparr>\<rparr>"

text \<open>The same service with a token object in the cookie whose \<^verbatim>\<open>accessToken\<close> is the empty string.\<close>

definition service_empty_accessToken :: AuthService where
  "service_empty_accessToken =
    example_service\<lparr>storage := (\<lambda>key. if key = TOKENITEM
        then Defined \<lparr>accessToken = Some (Defined ''''), expiry = 1700000000\<rparr> else Undefined)\<rparr>"

text \<open>
  Two events, one whose related item resolved with an identifier and one whose related
  item failed; a REST service that serves them for one topic, serves an empty page for
  another and fails for any other, rejects the action \<^verbatim>\<open>UNKNOWN\<close>, binds only the
  project \<^verbatim>\<open>p2\<close> and unbinds only for the event \<^verbatim>\<open>e1\<close>; and a component that has loaded
  the two events as the objects 0 and 1.
\<close>

definition event_with_project :: QualityAssuranceEventObject where
  "event_with_project =
    \<lparr>event_id = ''e1'', event_title = ''Publication A'',
     message = \<lparr>message_title = Defined ''Project X'', pidHref = Null\<rparr>,
     related = Defined \<lparr>hasSucceeded = True,
                        payload = Defined \<lparr>item_id = Defined ''p1'', item_handle = Defined ''123456789/42''\<rparr>\<rparr>,
     target = Defined \<lparr>hasSucceeded = True,
                       payload = Defined \<lparr>item_id = Defined ''t1'', item_handle = Defined ''123456789/7''\<rparr>\<rparr>\<rparr>"

definition event_without_project :: QualityAssuranceEventObject where
  "event_without_project =
    \<lparr>event_id = ''e2'', event_title = ''Publication B'',
     message = \<lparr>message_title = Defined ''Project Y'', pidHref = Null\<rparr>,
     related = Defined \<lparr>hasSucceeded = False, payload = Undefined\<rparr>,
     target = Defined \<lparr>hasSucceeded = True,
                       payload = Defined \<lparr>item_id = Defined ''t2'', item_handle = Defined ''123456789/8''\<rparr>\<rparr>\<rparr>"

definition example_rest :: QualityAssuranceEventDataService where
  "example_rest =
    \<lparr>rest_patchEvent = (\<lambda>action ev reason. \<lparr>hasSucceeded = (action \<noteq> ''UNKNOWN''), payload = Undefined\<rparr>),
     rest_getEventsByTopic = (\<lambda>topic options.
        if topic = ''ENRICH!MORE!PROJECT''
        then \<lparr>hasSucceeded = True,
              payload = Defined \<lparr>totalElements = 2, page = [event_with_project, event_without_project]\<rparr>\<rparr>
        else if topic = ''ENRICH!MISSING!PID''
        then \<lparr>hasSucceeded = True, payload = Defined \<lparr>totalElements = 0, page = []\<rparr>\<rparr>
        else \<lparr>hasSucceeded = False, payload = Undefined\<rparr>),
     rest_boundProject = (\<lambda>eventId projectId. \<lparr>hasSucceeded = (projectId = ''p2''), payload = Undefined\<rparr>),
     rest_removeProject = (\<lambda>eventId. \<lparr>hasSucceeded = (eventId = ''e1''), payload = Undefined\<rparr>)\<rparr>"

definition example_component :: Component where
  "example_component =
    \<lparr>objs = (\<lambda>r. if r = 0 then built event_with_project
                  else built event_without_project),
     nextRef = 2,
     eventsUpdated = [0, 1],
     totalElementsS = Defined 2,
     topic = ''ENRICH!MORE!PROJECT'',
     findListOptions = \<lparr>currentPage = 1, elementsPerPage = 10, sort_field = ''trust''\<rparr>,
     restService = example_rest,
     completion = (\<lambda>events. events),
     effects = []\<rparr>"

text \<open>The same component on the topic with no events, and on a topic whose page request fails.\<close>

definition component_empty_topic :: Component where
  "component_empty_topic = example_component\<lparr>topic := ''ENRICH!MISSING!PID''\<rparr>"

definition component_fetch_fails :: Component where
  "component_fetch_fails = example_component\<lparr>topic := ''OFFLINE''\<rparr>"

text \<open>
  Two calls of \<^verbatim>\<open>executeAction\<close> that overlap: the action \<^verbatim>\<open>UNKNOWN\<close> is requested for
  the object 0; before its response arrives, \<^verbatim>\<open>REJECTED\<close> is requested for the object 1
  and answered.
\<close>

definition call_that_fails :: "QualityAssuranceEventObject RemoteData \<times> Component" where
  "call_that_fails = executeAction ''UNKNOWN'' 0 example_component"

definition call_in_between :: "QualityAssuranceEventObject RemoteData \<times> Component" where
  "call_in_between = executeAction ''REJECTED'' 1 (snd call_that_fails)"

definition component_at_response :: Component where
  "component_at_response = executeAction_response 1 (fst call_in_between) (snd call_in_between)"

section \<open>Properties of the AuthService\<close>

lemma getToken_cases:
  "getToken this =
    (case storage this TOKENITEM of
       Defined t \<Rightarrow>
         (case accessToken t of
            Some (Defined a) \<Rightarrow> if a \<noteq> [] then Defined t else Null
          | _ \<Rightarrow> Null)
     | _ \<Rightarrow> Null)"
  by (simp add: getToken_def hasOwnProperty_accessToken_def read_accessToken_def
      split: nullable.splits option.splits)

text \<open>
  C10. \<^verbatim>\<open>getToken()\<close> never returns a token with a missing or empty \<^verbatim>\<open>accessToken\<close>: a
  returned token is the value stored under the token key, that value is non-empty, has
  an own \<^verbatim>\<open>accessToken\<close> property, and the property is a non-empty string; a stored
  value that passes the three tests is returned; in every other case the result is
  \<^verbatim>\<open>null\<close> (never \<^verbatim>\<open>undefined\<close>).
\<close>

theorem getToken_valid_or_null:
  "(\<forall>t. getToken this = Defined t \<longrightarrow>
        storage this TOKENITEM = Defined t \<and> isNotEmpty_object (storage this TOKENITEM) \<and>
        hasOwnProperty_accessToken t \<and> (\<exists>a. read_accessToken t = Defined a \<and> a \<noteq> []))
   \<and> (\<forall>t. storage this TOKENITEM = Defined t \<and> hasOwnProperty_accessToken t \<and>
          isNotEmpty_string (read_accessToken t) \<longrightarrow> getToken this = Defined t)
   \<and> (\<not> (\<exists>t. storage this TOKENITEM = Defined t \<and> hasOwnProperty_accessToken t \<and>
          isNotEmpty_string (read_accessToken t)) \<longrightarrow> getToken this = Null)
   \<and> getToken this \<noteq> Undefined"
  by (auto simp: getToken_cases hasOwnProperty_accessToken_def read_accessToken_def
      split: nullable.splits option.splits)

theorem getToken_valid_or_null_witness:
  "getToken example_service = Defined example_token \<and>
   read_accessToken example_token = Defined ''abc123'' \<and>
   getToken service_empty_accessToken = Null"
proof -
  have stored: "storage example_service TOKENITEM = Defined example_token"
    by (simp add: example_service_def)
  have valid: "hasOwnProperty_accessToken example_token \<and> isNotEmpty_string (read_accessToken example_token)"
    by (simp add: example_token_def hasOwnProperty_accessToken_def read_accessToken_def)
  have invalid: "\<not> (\<exists>t. storage service_empty_accessToken TOKENITEM = Defined t \<and>
      hasOwnProperty_accessToken t \<and> isNotEmpty_string (read_accessToken t))"
    by (simp add: service_empty_accessToken_def read_accessToken_def)
  have "read_accessToken example_token = Defined ''abc123''"
    by (simp add: example_token_def read_accessToken_def)
  with getToken_valid_or_null [of example_service] getToken_valid_or_null [of service_empty_accessToken]
    stored valid invalid
  show ?thesis by blast
qed

text \<open>
  C1. \<^verbatim>\<open>getAuthHeader()\<close> returns \<^verbatim>\<open>'Bearer '\<close> followed by the token's \<^verbatim>\<open>accessToken\<close>, a
  non-empty string, when the in-memory flag is true and \<^verbatim>\<open>getToken()\<close> returns a
  token (whose \<^verbatim>\<open>accessToken\<close> is then non-empty); in every other case it returns the
  empty string. So the result is non-empty if and only if the flag is true and
  \<^verbatim>\<open>getToken()\<close> returns a token with a non-empty \<^verbatim>\<open>accessToken\<close>.
\<close>

theorem getAuthHeader_bearer_iff:
  "(\<forall>t a. private_authenticated this \<and> getToken this = Defined t \<and> read_accessToken t = Defined a
        \<longrightarrow> a \<noteq> [] \<and> getAuthHeader this = Inr (''Bearer '' @ a))
   \<and> (\<not> (private_authenticated this \<and>
          (\<exists>t a. getToken this = Defined t \<and> read_accessToken t = Defined a \<and> a \<noteq> []))
        \<longrightarrow> getAuthHeader this = Inr '''')
   \<and> ((\<exists>h. getAuthHeader this = Inr h \<and> h \<noteq> '''') \<longleftrightarrow>
        private_authenticated this \<and>
        (\<exists>t a. getToken this = Defined t \<and> read_accessToken t = Defined a \<and> a \<noteq> []))"
  by (auto simp: getAuthHeader_def isNotNull_def getToken_cases hasOwnProperty_accessToken_def read_accessToken_def
      split: nullable.splits option.splits)

theorem getAuthHeader_bearer_iff_witness:
  "getAuthHeader example_service = Inr ''Bearer abc123'' \<and>
   getAuthHeader (example_service\<lparr>private_authenticated := False\<rparr>) = Inr ''''"
proof -
  have tok: "getToken example_service = Defined example_token"
    by (simp add: getToken_def example_service_def example_token_def
        hasOwnProperty_accessToken_def read_accessToken_def)
  have acc: "read_accessToken example_token = Defined ''abc123''"
    by (simp add: example_token_def read_accessToken_def)
  have auth: "private_authenticated example_service"
    by (simp add: example_service_def)
  have off: "\<not> private_authenticated (example_service\<lparr>private_authenticated := False\<rparr>)"
    by simp
  from getAuthHeader_bearer_iff [of example_service] tok acc auth
  have "getAuthHeader example_service = Inr (''Bearer '' @ ''abc123'')" by blast
  moreover from getAuthHeader_bearer_iff [of "example_service\<lparr>private_authenticated := False\<rparr>"] off
  have "getAuthHeader (example_service\<lparr>private_authenticated := False\<rparr>) = Inr ''''" by blast
  ultimately show ?thesis by simp
qed

text \<open>
  C4, as stated, fails: a token object is present in storage and is not empty, yet
  \<^verbatim>\<open>checkAuthenticationToken()\<close> fails, because \<^verbatim>\<open>getToken()\<close> gives \<^verbatim>\<open>null\<close> for a token
  whose \<^verbatim>\<open>accessToken\<close> is the empty string.
\<close>

theorem checkAuthenticationToken_counterexample:
  "storage service_empty_accessToken TOKENITEM =
     Defined \<lparr>accessToken = Some (Defined ''''), expiry = 1700000000\<rparr> \<and>
   isNotEmpty_object (storage service_empty_accessToken TOKENITEM) \<and>
   checkAuthenticationToken service_empty_accessToken = Inl Thrown_false"
  by (simp add: service_empty_accessToken_def checkAuthenticationToken_def getToken_def
      hasOwnProperty_accessToken_def read_accessToken_def)

text \<open>
  C4, amended. \<^verbatim>\<open>checkAuthenticationToken()\<close> succeeds, yielding the stored token, if and
  only if a token object is stored under the token key and its own \<^verbatim>\<open>accessToken\<close> is a
  non-empty string; otherwise it fails with the value \<^verbatim>\<open>false\<close>.
\<close>

theorem checkAuthenticationToken_valid_token:
  "checkAuthenticationToken this =
    (if \<exists>t a. storage this TOKENITEM = Defined t \<and> accessToken t = Some (Defined a) \<and> a \<noteq> []
     then Inr (storage this TOKENITEM) else Inl Thrown_false)"
  by (auto simp: checkAuthenticationToken_def getToken_cases split: nullable.splits option.splits)

theorem checkAuthenticationToken_valid_token_witness:
  "checkAuthenticationToken example_service = Inr (Defined example_token) \<and>
   checkAuthenticationToken (removeToken example_service) = Inl Thrown_false"
  using checkAuthenticationToken_valid_token [of example_service]
    checkAuthenticationToken_valid_token [of "removeToken example_service"]
  by (simp add: example_service_def example_token_def removeToken_def)

text \<open>
  C9, as stated, fails: for a user and a password whose login request itself fails,
  \<^verbatim>\<open>authenticate\<close> fails with the error of the request, which carries no
  invalid-credentials message.
\<close>

theorem authenticate_request_error_counterexample:
  "fst (authenticate example_encodeURI ''ada'' ''secret'' service_backend_down) =
     Inl (Error ''Http failure response'')
   \<and> fst (authenticate example_encodeURI ''ada'' ''secret'' service_backend_down) \<noteq>
     Inl (Error ''Invalid email or password'')"
  by (simp add: authenticate_def service_backend_down_def example_encodeURI_def)

text \<open>
  C9, amended. For every user and password: when the credentials are encoded and the
  backend answers the login request with a status, \<^verbatim>\<open>authenticate\<close> succeeds with that
  status exactly when the status reports \<^verbatim>\<open>authenticated\<close>, and otherwise fails with the
  error \<^verbatim>\<open>Invalid email or password\<close>; when \<^verbatim>\<open>encodeURI\<close> throws, or the request itself
  fails, it fails with that error; in every case the service is left as it was.
\<close>

theorem authenticate_result:
  "snd (authenticate encodeURI user password this) = this
   \<and> (\<forall>e. encodeURI (''password='' @ password @ ''&user='' @ user) = Inl e \<longrightarrow>
         fst (authenticate encodeURI user password this) = Inl e)
   \<and> (\<forall>body e. encodeURI (''password='' @ password @ ''&user='' @ user) = Inr body \<and>
         postToEndpoint (authRequestService this) ''login'' body
           \<lparr>headers = [(''Content-Type'', ''application/x-www-form-urlencoded'')]\<rparr> = Inl e \<longrightarrow>
         fst (authenticate encodeURI user password this) = Inl e)
   \<and> (\<forall>body status. encodeURI (''password='' @ password @ ''&user='' @ user) = Inr body \<and>
         postToEndpoint (authRequestService this) ''login'' body
           \<lparr>headers = [(''Content-Type'', ''application/x-www-form-urlencoded'')]\<rparr> = Inr status \<longrightarrow>
         (authenticated status \<longrightarrow> fst (authenticate encodeURI user password this) = Inr status)
         \<and> (\<not> authenticated status \<longrightarrow>
              fst (authenticate encodeURI user password this) = Inl (Error ''Invalid email or password''))
         \<and> ((\<exists>s. fst (authenticate encodeURI user password this) = Inr s) \<longleftrightarrow> authenticated status))"
  by (auto simp: authenticate_def split: sum.splits)

theorem authenticate_result_witness:
  "authenticate example_encodeURI ''ada'' ''secret'' example_service =
     (Inr \<lparr>authenticated = True, eperson = [''ada'']\<rparr>, example_service) \<and>
   authenticate example_encodeURI ''ada'' ''wrong'' example_service =
     (Inl (Error ''Invalid email or password''), example_service) \<and>
   authenticate example_encodeURI ''ada'' [CHR 0xED, CHR 0xA0, CHR 0x80] example_service =
     (Inl URIError, example_service)"
proof -
  let ?opts = "\<lparr>headers = [(''Content-Type'', ''application/x-www-form-urlencoded'')]\<rparr>"
  have enc: "example_encodeURI (''password='' @ ''secret'' @ ''&user='' @ ''ada'') =
      Inr ''password=secret&user=ada''"
    "example_encodeURI (''password='' @ ''wrong'' @ ''&user='' @ ''ada'') =
      Inr ''password=wrong&user=ada''"
    "example_encodeURI (''password='' @ [CHR 0xED, CHR 0xA0, CHR 0x80] @ ''&user='' @ ''ada'') =
      Inl URIError"
    by (simp_all add: example_encodeURI_def)
  have ok: "postToEndpoint (authRequestService example_service) ''login''
      ''password=secret&user=ada'' ?opts
      = Inr \<lparr>authenticated = True, eperson = [''ada'']\<rparr>"
    by (simp add: example_service_def example_backend_def)
  have bad: "postToEndpoint (authRequestService example_service) ''login''
      ''password=wrong&user=ada'' ?opts
      = Inr \<lparr>authenticated = False, eperson = [''ada'']\<rparr>"
    by (simp add: example_service_def example_backend_def)
  have yes: "authenticated \<lparr>authenticated = True, eperson = [''ada'']\<rparr>"
    and no: "\<not> authenticated \<lparr>authenticated = False, eperson = [''ada'']\<rparr>"
    by simp_all
  from authenticate_result [of example_encodeURI "''ada''" "''secret''" example_service] enc(1) ok yes
  have one: "fst (authenticate example_encodeURI ''ada'' ''secret'' example_service) =
      Inr \<lparr>authenticated = True, eperson = [''ada'']\<rparr>
      \<and> snd (authenticate example_encodeURI ''ada'' ''secret'' example_service) = example_service"
    by blast
  from authenticate_result [of example_encodeURI "''ada''" "''wrong''" example_service] enc(2) bad no
  have two: "fst (authenticate example_encodeURI ''ada'' ''wrong'' example_service) =
      Inl (Error ''Invalid email or password'')
      \<and> snd (authenticate example_encodeURI ''ada'' ''wrong'' example_service) = example_service"
    by blast
  from authenticate_result [of example_encodeURI "''ada''" "[CHR 0xED, CHR 0xA0, CHR 0x80]" example_service]
    enc(3)
  have three: "fst (authenticate example_encodeURI ''ada'' [CHR 0xED, CHR 0xA0, CHR 0x80] example_service) =
      Inl URIError
      \<and> snd (authenticate example_encodeURI ''ada'' [CHR 0xED, CHR 0xA0, CHR 0x80] example_service) =
        example_service"
    by blast
  from one two three show ?thesis by (simp add: prod_eq_iff)
qed

text \<open>
  C5. On a route-state change that carries a URL: if the URL is not the login route, a
  non-empty redirect URL is stored and the URL differs from it, the stored redirect
  URL is the empty string afterwards (and nothing else changes); if the URL is the
  login route, or the stored redirect URL is empty, or it equals the URL, the service
  is unchanged.
\<close>

theorem routeChanged_redirectUrl:
  assumes "router (store this) = Defined rs" and "state rs = Defined snapshot"
  shows "(\<forall>r. url snapshot \<noteq> LOGIN_ROUTE \<and> getRedirectUrl this = Defined r \<and> r \<noteq> [] \<and> url snapshot \<noteq> r
            \<longrightarrow> routeChanged this = Inr (setRedirectUrl (Defined '''') this)
              \<and> getRedirectUrl (setRedirectUrl (Defined '''') this) = Defined '''')
     \<and> (url snapshot = LOGIN_ROUTE \<or> \<not> isNotEmpty_string (getRedirectUrl this)
          \<or> getRedirectUrl this = Defined (url snapshot)
            \<longrightarrow> routeChanged this = Inr this)"
  using assms
  by (auto simp: routeChanged_def isNotUndefined_def getRedirectUrl_def setRedirectUrl_def Let_def)

theorem routeChanged_redirectUrl_witness:
  "routeChanged example_service = Inr (setRedirectUrl (Defined '''') example_service) \<and>
   getRedirectUrl (setRedirectUrl (Defined '''') example_service) = Defined '''' \<and>
   routeChanged (setRedirectUrl (Defined ''/home'') example_service) =
     Inr (setRedirectUrl (Defined ''/home'') example_service)"
proof -
  have r1: "router (store example_service) = Defined \<lparr>state = Defined \<lparr>url = ''/home''\<rparr>, navigationId = 1\<rparr>"
    by (simp add: example_service_def)
  have r2: "router (store (setRedirectUrl (Defined ''/home'') example_service)) =
      Defined \<lparr>state = Defined \<lparr>url = ''/home''\<rparr>, navigationId = 1\<rparr>"
    by (simp add: example_service_def setRedirectUrl_def)
  have s: "state \<lparr>state = Defined \<lparr>url = ''/home''\<rparr>, navigationId = 1\<rparr> = Defined \<lparr>url = ''/home''\<rparr>"
    by simp
  have c1: "url \<lparr>url = ''/home''\<rparr> \<noteq> LOGIN_ROUTE \<and> getRedirectUrl example_service = Defined ''/mydspace''
      \<and> ''/mydspace'' \<noteq> [] \<and> url \<lparr>url = ''/home''\<rparr> \<noteq> ''/mydspace''"
    by (simp add: LOGIN_ROUTE_def getRedirectUrl_def example_service_def)
  have c2: "getRedirectUrl (setRedirectUrl (Defined ''/home'') example_service) = Defined (url \<lparr>url = ''/home''\<rparr>)"
    by (simp add: getRedirectUrl_def setRedirectUrl_def)
  from routeChanged_redirectUrl [OF r1 s] c1
  have "routeChanged example_service = Inr (setRedirectUrl (Defined '''') example_service)
      \<and> getRedirectUrl (setRedirectUrl (Defined '''') example_service) = Defined ''''" by blast
  moreover from routeChanged_redirectUrl [OF r2 s] c2
  have "routeChanged (setRedirectUrl (Defined ''/home'') example_service) =
     Inr (setRedirectUrl (Defined ''/home'') example_service)" by blast
  ultimately show ?thesis by simp
qed

section \<open>Properties of the QualityAssuranceEventsComponent\<close>

subsection \<open>The list of view-models in closed form\<close>

lemma subscribe_links_closed:
  "subscribe_links evs this =
    this\<lparr>effects := effects this @ map (\<lambda>ev. ResolveLinks (event_id ev)) evs\<rparr>"
  by (induction evs arbitrary: this) (simp_all add: perform_def)

lemma scan_events_closed:
  "scan_events evs acc this =
    (acc @ [nextRef this ..< nextRef this + length evs],
     this\<lparr>objs := (\<lambda>r. if nextRef this \<le> r \<and> r < nextRef this + length evs
                        then built (evs ! (r - nextRef this)) else objs this r),
          nextRef := nextRef this + length evs\<rparr>)"
proof (induction evs arbitrary: acc this)
  case Nil
  show ?case by (cases this) (auto simp: fun_eq_iff)
next
  case (Cons ev evs)
  have upt: "[nextRef this ..< nextRef this + length (ev # evs)] =
      nextRef this # [Suc (nextRef this) ..< Suc (nextRef this) + length evs]"
    by (simp add: upt_conv_Cons del: upt_Suc)
  show ?case
    unfolding upt
    by (cases this) (auto simp: Cons.IH new_object_def fun_eq_iff nth_Cons' Suc_diff_Suc)
qed

lemma fetchEvents_closed:
  "fetchEvents events this =
    (if completion this events = []
     then (Inl EmptyError,
           this\<lparr>effects := effects this @ map (\<lambda>ev. ResolveLinks (event_id ev)) events\<rparr>)
     else (Inr [nextRef this ..< nextRef this + length (completion this events)],
           this\<lparr>objs := (\<lambda>r. if nextRef this \<le> r \<and> r < nextRef this + length (completion this events)
                              then built (completion this events ! (r - nextRef this)) else objs this r),
                nextRef := nextRef this + length (completion this events),
                effects := effects this @ map (\<lambda>ev. ResolveLinks (event_id ev)) events\<rparr>))"
  by (cases "completion this events")
    (simp_all add: fetchEvents_def scan_events_closed subscribe_links_closed cong: if_cong)

lemma related_resolved_iff:
  "opt_hasSucceeded rel \<and> truthy (opt_payload_id rel) \<longleftrightarrow>
   (\<exists>rd item i. rel = Defined rd \<and> hasSucceeded rd \<and> payload rd = Defined item \<and>
      item_id item = Defined i \<and> i \<noteq> [])"
proof (cases rel)
  case (Defined rd)
  show ?thesis
  proof (cases "payload rd")
    case (Defined item)
    with \<open>rel = Defined rd\<close> show ?thesis by (cases "item_id item") auto
  qed (simp_all add: \<open>rel = Defined rd\<close>)
qed simp_all

lemma built_fields:
  "event (built ev) = ev"
  "data_id (built ev) = event_id ev"
  "isRunning (built ev) = False"
  "reason (built ev) = Null"
  by (simp_all add: eventData_def Let_def)

lemma built_project:
  "(\<forall>rd item i. related ev = Defined rd \<and> hasSucceeded rd \<and> payload rd = Defined item \<and>
        item_id item = Defined i \<and> i \<noteq> [] \<longrightarrow>
      hasProject (built ev) \<and> projectTitle (built ev) = message_title (message ev) \<and>
      projectId (built ev) = Defined i \<and> handle (built ev) = item_handle item)
   \<and> (\<not> (\<exists>rd item i. related ev = Defined rd \<and> hasSucceeded rd \<and> payload rd = Defined item \<and>
        item_id item = Defined i \<and> i \<noteq> []) \<longrightarrow>
      \<not> hasProject (built ev) \<and> projectTitle (built ev) = Null \<and>
      projectId (built ev) = Null \<and> handle (built ev) = Null)"
proof -
  have no: "\<not> (opt_hasSucceeded (related ev) \<and> truthy (opt_payload_id (related ev))) \<Longrightarrow>
      \<not> hasProject (built ev) \<and> projectTitle (built ev) = Null \<and>
      projectId (built ev) = Null \<and> handle (built ev) = Null"
    by (simp add: eventData_def Let_def)
  have yes: "related ev = Defined rd \<Longrightarrow> hasSucceeded rd \<Longrightarrow> payload rd = Defined item \<Longrightarrow>
        item_id item = Defined i \<Longrightarrow> i \<noteq> [] \<Longrightarrow>
      hasProject (built ev) \<and> projectTitle (built ev) = message_title (message ev) \<and>
      projectId (built ev) = Defined i \<and> handle (built ev) = item_handle item" for rd item i
    by (simp add: eventData_def Let_def)
  from no yes show ?thesis unfolding related_resolved_iff by blast
qed

text \<open>
  C2. For every view-model that \<^verbatim>\<open>fetchEvents\<close> produces for a page: it belongs to one of
  the delivered events; if that event's related reference resolved successfully and
  its payload has a non-empty id, then \<open>hasProject\<close> is true, \<open>projectTitle\<close> is the
  event's message title, and \<open>projectId\<close> and \<open>handle\<close> are those of the resolved
  record; otherwise \<open>hasProject\<close> is false and the three fields are \<^verbatim>\<open>null\<close>.
\<close>

theorem fetchEvents_hasProject:
  assumes "fetchEvents events this = (Inr refs, this')" and "r \<in> set refs"
  shows "event (objs this' r) \<in> set (completion this events)
     \<and> (\<forall>rd item i. related (event (objs this' r)) = Defined rd \<and> hasSucceeded rd \<and>
            payload rd = Defined item \<and> item_id item = Defined i \<and> i \<noteq> [] \<longrightarrow>
          hasProject (objs this' r) \<and>
          projectTitle (objs this' r) = message_title (message (event (objs this' r))) \<and>
          projectId (objs this' r) = Defined i \<and> handle (objs this' r) = item_handle item)
     \<and> (\<not> (\<exists>rd item i. related (event (objs this' r)) = Defined rd \<and> hasSucceeded rd \<and>
            payload rd = Defined item \<and> item_id item = Defined i \<and> i \<noteq> []) \<longrightarrow>
          \<not> hasProject (objs this' r) \<and> projectTitle (objs this' r) = Null \<and>
          projectId (objs this' r) = Null \<and> handle (objs this' r) = Null)"
proof -
  let ?evs = "completion this events"
  let ?n = "nextRef this"
  from assms(1) have ne: "?evs \<noteq> []"
    by (auto simp: fetchEvents_closed split: if_splits)
  with assms(1) have refs: "refs = [?n ..< ?n + length ?evs]"
    by (simp add: fetchEvents_closed)
  with assms(2) have range: "?n \<le> r \<and> r < ?n + length ?evs" by simp
  then have idx: "r - ?n < length ?evs" by arith
  from assms(1) ne range have obj: "objs this' r = built (?evs ! (r - ?n))"
    by (auto simp: fetchEvents_closed)
  have ev: "event (objs this' r) = ?evs ! (r - ?n)"
    by (simp add: obj built_fields)
  from idx have mem: "?evs ! (r - ?n) \<in> set ?evs" by simp
  show ?thesis
    unfolding ev using mem built_project [of "?evs ! (r - ?n)"] unfolding obj by blast
qed

theorem fetchEvents_hasProject_witness:
  "fst (fetchEvents [event_with_project, event_without_project] example_component) = Inr [2, 3]
   \<and> hasProject (objs (snd (fetchEvents [event_with_project, event_without_project] example_component)) 2)
   \<and> projectTitle (objs (snd (fetchEvents [event_with_project, event_without_project] example_component)) 2)
       = Defined ''Project X''
   \<and> projectId (objs (snd (fetchEvents [event_with_project, event_without_project] example_component)) 2)
       = Defined ''p1''
   \<and> handle (objs (snd (fetchEvents [event_with_project, event_without_project] example_component)) 2)
       = Defined ''123456789/42''
   \<and> \<not> hasProject (objs (snd (fetchEvents [event_with_project, event_without_project] example_component)) 3)
   \<and> projectTitle (objs (snd (fetchEvents [event_with_project, event_without_project] example_component)) 3)
       = Null"
proof -
  let ?page = "[event_with_project, event_without_project]"
  let ?this' = "snd (fetchEvents ?page example_component)"
  have refs: "fst (fetchEvents ?page example_component) = Inr [2, 3]"
    by (simp add: fetchEvents_def example_component_def new_object_def perform_def)
  then have run: "fetchEvents ?page example_component = (Inr [2, 3], ?this')"
    by (simp add: prod_eq_iff)
  have ev2: "event (objs ?this' 2) = event_with_project"
    by (simp add: fetchEvents_def example_component_def new_object_def perform_def eventData_def Let_def)
  have ev3: "event (objs ?this' 3) = event_without_project"
    by (simp add: fetchEvents_def example_component_def new_object_def perform_def eventData_def Let_def)
  have rel2: "related event_with_project = Defined \<lparr>hasSucceeded = True,
        payload = Defined \<lparr>item_id = Defined ''p1'', item_handle = Defined ''123456789/42''\<rparr>\<rparr>"
    by (simp add: event_with_project_def)
  have rel3: "\<not> (\<exists>rd item i. related event_without_project = Defined rd \<and> hasSucceeded rd \<and>
        payload rd = Defined item \<and> item_id item = Defined i \<and> i \<noteq> [])"
    by (auto simp: event_without_project_def)
  have title: "message_title (message event_with_project) = Defined ''Project X''"
    by (simp add: event_with_project_def)
  from fetchEvents_hasProject [OF run, of 2] ev2 rel2 title
  have two: "hasProject (objs ?this' 2) \<and> projectTitle (objs ?this' 2) = Defined ''Project X''
      \<and> projectId (objs ?this' 2) = Defined ''p1'' \<and> handle (objs ?this' 2) = Defined ''123456789/42''"
    by simp
  from fetchEvents_hasProject [OF run, of 3] ev3 rel3
  have three: "\<not> hasProject (objs ?this' 3) \<and> projectTitle (objs ?this' 3) = Null"
    by simp
  from refs two three show ?thesis by blast
qed

subsection \<open>Fetching a page\<close>

text \<open>
  C6. When the page request succeeds with 0 total elements, \<^verbatim>\<open>getQualityAssuranceEvents\<close>
  delivers the empty list and \<^verbatim>\<open>totalElements$\<close> receives 0; the only effects are the
  page request and the clearing of its cache: no link of any event is resolved and no
  object is created.
\<close>

theorem getQualityAssuranceEvents_zero_elements:
  assumes "hasSucceeded (rest_getEventsByTopic (restService this) (topic this) (findListOptions this))"
    and "payload (rest_getEventsByTopic (restService this) (topic this) (findListOptions this)) = Defined pl"
    and "totalElements pl = 0"
  shows "getQualityAssuranceEvents this =
      (Inr [], this\<lparr>totalElementsS := Defined 0,
                    effects := effects this @ [GetEventsByTopic (topic this), ClearFindByTopicRequests]\<rparr>)"
  using assms by (simp add: getQualityAssuranceEvents_def perform_def)

theorem getQualityAssuranceEvents_zero_elements_witness:
  "getQualityAssuranceEvents component_empty_topic =
     (Inr [], component_empty_topic\<lparr>totalElementsS := Defined 0,
        effects := effects component_empty_topic @
          [GetEventsByTopic (topic component_empty_topic), ClearFindByTopicRequests]\<rparr>)
   \<and> effects component_empty_topic @ [GetEventsByTopic (topic component_empty_topic), ClearFindByTopicRequests]
       = [GetEventsByTopic ''ENRICH!MISSING!PID'', ClearFindByTopicRequests]"
proof -
  let ?rd = "rest_getEventsByTopic (restService component_empty_topic) (topic component_empty_topic)
      (findListOptions component_empty_topic)"
  have ok: "hasSucceeded ?rd"
    by (simp add: component_empty_topic_def example_component_def example_rest_def)
  have pl: "payload ?rd = Defined \<lparr>totalElements = 0, page = []\<rparr>"
    by (simp add: component_empty_topic_def example_component_def example_rest_def)
  have zero: "totalElements \<lparr>totalElements = 0, page = ([] :: QualityAssuranceEventObject list)\<rparr> = 0"
    by simp
  have "effects component_empty_topic @ [GetEventsByTopic (topic component_empty_topic), ClearFindByTopicRequests]
       = [GetEventsByTopic ''ENRICH!MISSING!PID'', ClearFindByTopicRequests]"
    by (simp add: component_empty_topic_def example_component_def)
  with getQualityAssuranceEvents_zero_elements [OF ok pl zero] show ?thesis by blast
qed

lemma getQualityAssuranceEvents_page:
  assumes "hasSucceeded (rest_getEventsByTopic (restService this) (topic this) (findListOptions this))"
    and "payload (rest_getEventsByTopic (restService this) (topic this) (findListOptions this)) = Defined pl"
    and "0 < totalElements pl"
    and "completion this (page pl) = evs" and "evs \<noteq> []"
  shows "getQualityAssuranceEvents this =
      (Inr [nextRef this ..< nextRef this + length evs],
       this\<lparr>objs := (\<lambda>r. if nextRef this \<le> r \<and> r < nextRef this + length evs
                          then built (evs ! (r - nextRef this)) else objs this r),
            nextRef := nextRef this + length evs,
            totalElementsS := Defined (totalElements pl),
            effects := effects this @ GetEventsByTopic (topic this) #
                         map (\<lambda>ev. ResolveLinks (event_id ev)) (page pl) @ [ClearFindByTopicRequests]\<rparr>)"
  using assms
  by (simp add: getQualityAssuranceEvents_def perform_def fetchEvents_closed Let_def cong: if_cong)

lemma getQualityAssuranceEvents_no_page:
  assumes "hasSucceeded (rest_getEventsByTopic (restService this) (topic this) (findListOptions this))"
    and "payload (rest_getEventsByTopic (restService this) (topic this) (findListOptions this)) = Defined pl"
    and "\<not> 0 < totalElements pl"
  shows "getQualityAssuranceEvents this =
      (Inr [], this\<lparr>totalElementsS := Defined (totalElements pl),
                    effects := effects this @ [GetEventsByTopic (topic this), ClearFindByTopicRequests]\<rparr>)"
  using assms by (simp add: getQualityAssuranceEvents_def perform_def)

lemma getQualityAssuranceEvents_requests:
  "\<exists>es. effects (snd (getQualityAssuranceEvents this)) =
      effects this @ GetEventsByTopic (topic this) # es"
  by (simp add: getQualityAssuranceEvents_def perform_def fetchEvents_closed Let_def
      split: nullable.splits)

subsection \<open>Actions on one event\<close>

lemma executeAction_closed:
  "executeAction action a this =
    (rest_patchEvent (restService this) action (event (objs this a)) (reason (objs this a)),
     this\<lparr>objs := (objs this)(a := (objs this a)\<lparr>isRunning := True\<rparr>),
          effects := effects this @ [PatchEvent action (event_id (event (objs this a))) (reason (objs this a))]\<rparr>)"
  by (simp add: executeAction_def modify_def perform_def)

lemma executeAction_response_failed:
  assumes "\<not> hasSucceeded rd"
  shows "executeAction_response a rd this =
    this\<lparr>objs := (objs this)(a := (objs this a)\<lparr>isRunning := False\<rparr>),
         effects := effects this @ [NotifyError ''quality-assurance.event.action.error'',
                                    EventsUpdatedNext (eventsUpdated this)]\<rparr>"
  using assms
  by (cases this) (simp add: executeAction_response_def eventsUpdated_next_def modify_def perform_def)

lemma executeAction_response_succeeded:
  assumes "hasSucceeded rd"
  shows "executeAction_response a rd this =
    (case getQualityAssuranceEvents
            (perform (NotifySuccess ''quality-assurance.event.action.saved'') this) of
       (Inr events, this') \<Rightarrow>
         modify a (\<lambda>d. d\<lparr>isRunning := False\<rparr>) (eventsUpdated_next events this')
     | (Inl e, this') \<Rightarrow> perform (Unhandled e) this')"
  using assms
  by (simp add: executeAction_response_def split_beta split: sum.splits prod.splits)

lemma built_not_running: "(built ev)\<lparr>isRunning := False\<rparr> = built ev"
  by (simp add: eventData_def Let_def)

text \<open>
  C3, as stated, fails: the patch request for the object 0 fails, but between the call
  and its response another call re-fetched the page. The list current before the call
  was \<open>[0, 1]\<close>; the list pushed on \<^verbatim>\<open>eventsUpdated$\<close> when the failure arrives is the
  list current then, \<open>[2, 3]\<close>.
\<close>

theorem executeAction_interleaved_counterexample:
  "\<not> hasSucceeded (fst call_that_fails)
   \<and> eventsUpdated example_component = [0, 1]
   \<and> eventsUpdated component_at_response = [2, 3]
   \<and> effects (executeAction_response 0 (fst call_that_fails) component_at_response) =
       effects component_at_response @
         [NotifyError ''quality-assurance.event.action.error'', EventsUpdatedNext [2, 3]]
   \<and> eventsUpdated (executeAction_response 0 (fst call_that_fails) component_at_response) = [2, 3]"
proof -
  have failed: "\<not> hasSucceeded (fst call_that_fails)"
    by (simp add: call_that_fails_def executeAction_closed example_component_def example_rest_def)
  have first: "snd call_that_fails =
      example_component\<lparr>objs := (objs example_component)(0 := (objs example_component 0)\<lparr>isRunning := True\<rparr>),
        effects := effects example_component @
          [PatchEvent ''UNKNOWN'' (event_id (event (objs example_component 0))) (reason (objs example_component 0))]\<rparr>"
    by (simp add: call_that_fails_def executeAction_closed)
  have "fst call_in_between = rest_patchEvent (restService example_component) ''REJECTED''
      (event (objs (snd call_that_fails) 1)) (reason (objs (snd call_that_fails) 1))"
    by (simp add: call_in_between_def executeAction_closed first)
  then have answered: "hasSucceeded (fst call_in_between)"
    by (simp add: example_component_def example_rest_def)
  let ?mid = "perform (NotifySuccess ''quality-assurance.event.action.saved'') (snd call_in_between)"
  let ?pl = "\<lparr>totalElements = 2, page = [event_with_project, event_without_project]\<rparr>"
  have second: "restService (snd call_in_between) = restService example_component"
    "topic (snd call_in_between) = topic example_component"
    "completion (snd call_in_between) = completion example_component"
    "nextRef (snd call_in_between) = nextRef example_component"
    "findListOptions (snd call_in_between) = findListOptions example_component"
    by (simp_all add: call_in_between_def executeAction_closed first)
  have same: "restService ?mid = example_rest" "topic ?mid = ''ENRICH!MORE!PROJECT''"
    "completion ?mid = (\<lambda>events. events)" "nextRef ?mid = 2"
    unfolding perform_def by (simp_all add: second) (simp_all add: example_component_def)
  have page: "getQualityAssuranceEvents ?mid =
      (Inr [nextRef ?mid ..< nextRef ?mid + length [event_with_project, event_without_project]],
       ?mid\<lparr>objs := (\<lambda>r. if nextRef ?mid \<le> r \<and>
                              r < nextRef ?mid + length [event_with_project, event_without_project]
                          then built ([event_with_project, event_without_project] ! (r - nextRef ?mid))
                          else objs ?mid r),
            nextRef := nextRef ?mid + length [event_with_project, event_without_project],
            totalElementsS := Defined (totalElements ?pl),
            effects := effects ?mid @ GetEventsByTopic (topic ?mid) #
                         map (\<lambda>ev. ResolveLinks (event_id ev)) (page ?pl) @ [ClearFindByTopicRequests]\<rparr>)"
    by (rule getQualityAssuranceEvents_page) (simp_all add: same example_rest_def)
  have upt: "[2 ..< 2 + length [event_with_project, event_without_project]] = [2, 3]"
    by (simp add: upt_conv_Cons del: upt_Suc)
  have current: "eventsUpdated component_at_response = [2, 3]"
    unfolding component_at_response_def executeAction_response_succeeded [OF answered] page same upt
    by (simp add: eventsUpdated_next_def modify_def perform_def)
  have before: "eventsUpdated example_component = [0, 1]"
    by (simp add: example_component_def)
  from failed before current show ?thesis
    by (simp add: executeAction_response_failed [OF failed])
qed

text \<open>
  C3, amended. When the patch request of \<^verbatim>\<open>executeAction\<close> completes with failure: the
  call sets \<open>isRunning\<close> of the event and changes no list; when the response arrives,
  the list pushed on \<^verbatim>\<open>eventsUpdated$\<close> is the list current at that moment, re-emitted
  unchanged, an error notification is issued, \<open>isRunning\<close> of the event ends false and
  no other object changes. When nothing ran between the call and the response, the
  list pushed is the list that was current before the call.
\<close>

theorem executeAction_failed_response:
  assumes "executeAction action a this = (rd, this1)" and "\<not> hasSucceeded rd"
  shows "isRunning (objs this1 a)
     \<and> eventsUpdated this1 = eventsUpdated this
     \<and> effects this1 =
         effects this @ [PatchEvent action (event_id (event (objs this a))) (reason (objs this a))]
     \<and> eventsUpdated (executeAction_response a rd mid) = eventsUpdated mid
     \<and> effects (executeAction_response a rd mid) =
         effects mid @ [NotifyError ''quality-assurance.event.action.error'',
                        EventsUpdatedNext (eventsUpdated mid)]
     \<and> \<not> isRunning (objs (executeAction_response a rd mid) a)
     \<and> objs (executeAction_response a rd mid) = (objs mid)(a := (objs mid a)\<lparr>isRunning := False\<rparr>)
     \<and> nextRef (executeAction_response a rd mid) = nextRef mid
     \<and> eventsUpdated (executeAction_response a rd this1) = eventsUpdated this
     \<and> effects (executeAction_response a rd this1) =
         effects this @
           [PatchEvent action (event_id (event (objs this a))) (reason (objs this a)),
            NotifyError ''quality-assurance.event.action.error'',
            EventsUpdatedNext (eventsUpdated this)]
     \<and> objs (executeAction_response a rd this1) = (objs this)(a := (objs this a)\<lparr>isRunning := False\<rparr>)"
proof -
  from assms(1) have this1: "this1 =
      this\<lparr>objs := (objs this)(a := (objs this a)\<lparr>isRunning := True\<rparr>),
           effects := effects this @
             [PatchEvent action (event_id (event (objs this a))) (reason (objs this a))]\<rparr>"
    by (simp add: executeAction_closed)
  show ?thesis
    by (simp add: executeAction_response_failed [OF assms(2)] this1)
qed

theorem executeAction_failed_response_witness:
  "isRunning (objs (snd (executeAction ''UNKNOWN'' 0 example_component)) 0)
   \<and> eventsUpdated (executeAction_response 0 (fst (executeAction ''UNKNOWN'' 0 example_component))
        (snd (executeAction ''UNKNOWN'' 0 example_component))) = [0, 1]
   \<and> effects (executeAction_response 0 (fst (executeAction ''UNKNOWN'' 0 example_component))
        (snd (executeAction ''UNKNOWN'' 0 example_component))) =
       [PatchEvent ''UNKNOWN'' ''e1'' Null,
        NotifyError ''quality-assurance.event.action.error'',
        EventsUpdatedNext [0, 1]]
   \<and> \<not> isRunning (objs (executeAction_response 0 (fst (executeAction ''UNKNOWN'' 0 example_component))
        (snd (executeAction ''UNKNOWN'' 0 example_component))) 0)"
proof -
  let ?call = "executeAction ''UNKNOWN'' 0 example_component"
  have call: "?call = (fst ?call, snd ?call)" by simp
  have failed: "\<not> hasSucceeded (fst ?call)"
    by (simp add: executeAction_def modify_def perform_def example_component_def example_rest_def)
  have before: "eventsUpdated example_component = [0, 1]" "effects example_component = []"
    "event_id (event (objs example_component 0)) = ''e1''" "reason (objs example_component 0) = Null"
    by (simp_all add: example_component_def eventData_def event_with_project_def Let_def)
  from executeAction_failed_response [OF call failed, of "snd ?call"] show ?thesis
    by (simp add: before)
qed

text \<open>
  C7, as stated, fails: the patch request succeeds and the success notification fires,
  but the page request of the re-fetch fails; the error reaches no handler, nothing is
  pushed on \<^verbatim>\<open>eventsUpdated$\<close>, and the event stays running.
\<close>

theorem executeAction_refetch_counterexample:
  "hasSucceeded (fst (executeAction ''REJECTED'' 0 component_fetch_fails))
   \<and> isRunning (objs (executeAction_response 0 (fst (executeAction ''REJECTED'' 0 component_fetch_fails))
        (snd (executeAction ''REJECTED'' 0 component_fetch_fails))) 0)
   \<and> eventsUpdated (executeAction_response 0 (fst (executeAction ''REJECTED'' 0 component_fetch_fails))
        (snd (executeAction ''REJECTED'' 0 component_fetch_fails))) = eventsUpdated component_fetch_fails
   \<and> effects (executeAction_response 0 (fst (executeAction ''REJECTED'' 0 component_fetch_fails))
        (snd (executeAction ''REJECTED'' 0 component_fetch_fails))) =
       [PatchEvent ''REJECTED'' ''e1'' Null,
        NotifySuccess ''quality-assurance.event.action.saved'',
        GetEventsByTopic ''OFFLINE'',
        Unhandled (Error (''Can'' @ [CHR 0x27] @
          ''t retrieve Quality Assurance events from the Broker events REST service''))]"
  by (simp add: executeAction_response_def executeAction_def
      getQualityAssuranceEvents_def modify_def perform_def component_fetch_fails_def
      example_component_def example_rest_def eventData_def event_with_project_def Let_def)

text \<open>
  C7, amended. When the patch request of \<^verbatim>\<open>executeAction\<close> succeeds, then on its
  response, in every case, a success notification fires and the page request of the
  re-fetch is issued. When the re-fetch delivers a list (the page request succeeds
  and, for a page with elements, the view-models are delivered), the links of the
  page are subscribed in page order, the list of the new view-models is pushed on
  \<^verbatim>\<open>eventsUpdated$\<close> in place of the old list, and at the end \<open>isRunning\<close> of the event
  is false, cleared by the subscriber that pushed the list.
\<close>

theorem executeAction_succeeded_response:
  assumes "executeAction action a this = (rd, this1)" and "hasSucceeded rd"
  shows "isRunning (objs this1 a)
     \<and> (\<exists>es. effects (executeAction_response a rd mid) =
           effects mid @ NotifySuccess ''quality-assurance.event.action.saved'' #
             GetEventsByTopic (topic mid) # es)
     \<and> (hasSucceeded (rest_getEventsByTopic (restService mid) (topic mid) (findListOptions mid)) \<and>
        payload (rest_getEventsByTopic (restService mid) (topic mid) (findListOptions mid)) = Defined pl \<and>
        pg = (if 0 < totalElements pl then page pl else []) \<and>
        evs = (if 0 < totalElements pl then completion mid (page pl) else []) \<and>
        (0 < totalElements pl \<longrightarrow> completion mid (page pl) \<noteq> [])
        \<longrightarrow>
          eventsUpdated (executeAction_response a rd mid) = [nextRef mid ..< nextRef mid + length evs]
        \<and> (\<forall>i < length evs. objs (executeAction_response a rd mid) (nextRef mid + i) = built (evs ! i))
        \<and> effects (executeAction_response a rd mid) =
            effects mid @
              [NotifySuccess ''quality-assurance.event.action.saved'',
               GetEventsByTopic (topic mid)] @
              map (\<lambda>ev. ResolveLinks (event_id ev)) pg @
              [ClearFindByTopicRequests,
               EventsUpdatedNext [nextRef mid ..< nextRef mid + length evs]]
        \<and> \<not> isRunning (objs (executeAction_response a rd mid) a)
        \<and> totalElementsS (executeAction_response a rd mid) = Defined (totalElements pl))"
proof -
  let ?mid' = "perform (NotifySuccess ''quality-assurance.event.action.saved'') mid"
  let ?resp = "executeAction_response a rd mid"
  have same: "restService ?mid' = restService mid" "topic ?mid' = topic mid"
    "findListOptions ?mid' = findListOptions mid" "completion ?mid' = completion mid"
    "nextRef ?mid' = nextRef mid"
    by (simp_all add: perform_def)
  have eff: "effects ?mid' = effects mid @ [NotifySuccess ''quality-assurance.event.action.saved'']"
    by (simp add: perform_def)
  note run = executeAction_response_succeeded [OF assms(2), of a mid]
  from assms(1) have running: "isRunning (objs this1 a)"
    by (auto simp: executeAction_closed)
  have requests: "\<exists>es. effects ?resp =
      effects mid @ NotifySuccess ''quality-assurance.event.action.saved'' #
        GetEventsByTopic (topic mid) # es"
  proof -
    from getQualityAssuranceEvents_requests [of ?mid'] obtain es where
      es: "effects (snd (getQualityAssuranceEvents ?mid')) =
        effects ?mid' @ GetEventsByTopic (topic ?mid') # es" ..
    obtain result this' where res: "getQualityAssuranceEvents ?mid' = (result, this')"
      by (cases "getQualityAssuranceEvents ?mid'")
    with es have this': "effects this' =
        effects mid @ NotifySuccess ''quality-assurance.event.action.saved'' #
          GetEventsByTopic (topic mid) # es"
      by (simp add: eff same)
    show ?thesis
      unfolding run res
      by (cases result) (simp_all add: this' eventsUpdated_next_def modify_def perform_def)
  qed
  have delivered: "eventsUpdated ?resp = [nextRef mid ..< nextRef mid + length evs]
        \<and> (\<forall>i < length evs. objs ?resp (nextRef mid + i) = built (evs ! i))
        \<and> effects ?resp =
            effects mid @
              [NotifySuccess ''quality-assurance.event.action.saved'',
               GetEventsByTopic (topic mid)] @
              map (\<lambda>ev. ResolveLinks (event_id ev)) pg @
              [ClearFindByTopicRequests,
               EventsUpdatedNext [nextRef mid ..< nextRef mid + length evs]]
        \<and> \<not> isRunning (objs ?resp a)
        \<and> totalElementsS ?resp = Defined (totalElements pl)"
    if fetch: "hasSucceeded (rest_getEventsByTopic (restService mid) (topic mid) (findListOptions mid))"
      and pl: "payload (rest_getEventsByTopic (restService mid) (topic mid) (findListOptions mid)) = Defined pl"
      and pg: "pg = (if 0 < totalElements pl then page pl else [])"
      and evs: "evs = (if 0 < totalElements pl then completion mid (page pl) else [])"
      and some: "0 < totalElements pl \<longrightarrow> completion mid (page pl) \<noteq> []"
  proof (cases "0 < totalElements pl")
    case True
    with evs some pg have ne: "completion mid (page pl) = evs" "evs \<noteq> []" "pg = page pl"
      by simp_all
    have "getQualityAssuranceEvents ?mid' =
      (Inr [nextRef ?mid' ..< nextRef ?mid' + length evs],
       ?mid'\<lparr>objs := (\<lambda>r. if nextRef ?mid' \<le> r \<and> r < nextRef ?mid' + length evs
                          then built (evs ! (r - nextRef ?mid')) else objs ?mid' r),
            nextRef := nextRef ?mid' + length evs,
            totalElementsS := Defined (totalElements pl),
            effects := effects ?mid' @ GetEventsByTopic (topic ?mid') #
                         map (\<lambda>ev. ResolveLinks (event_id ev)) (page pl) @ [ClearFindByTopicRequests]\<rparr>)"
      by (rule getQualityAssuranceEvents_page) (simp_all add: same fetch pl True ne)
    then show ?thesis
      unfolding run same eff ne
      by (auto simp: eventsUpdated_next_def modify_def perform_def built_not_running)
  next
    case False
    with evs pg have e: "evs = []" "pg = []" by simp_all
    have "getQualityAssuranceEvents ?mid' =
      (Inr [], ?mid'\<lparr>totalElementsS := Defined (totalElements pl),
                       effects := effects ?mid' @ [GetEventsByTopic (topic ?mid'), ClearFindByTopicRequests]\<rparr>)"
      by (rule getQualityAssuranceEvents_no_page) (simp_all add: same fetch pl False)
    then show ?thesis
      unfolding run same eff e
      by (simp add: eventsUpdated_next_def modify_def perform_def)
  qed
  from running requests delivered show ?thesis by blast
qed

theorem executeAction_succeeded_response_witness:
  "eventsUpdated (executeAction_response 0 (fst (executeAction ''REJECTED'' 0 example_component))
      (snd (executeAction ''REJECTED'' 0 example_component))) = [2, 3]
   \<and> objs (executeAction_response 0 (fst (executeAction ''REJECTED'' 0 example_component))
      (snd (executeAction ''REJECTED'' 0 example_component))) 2 = built event_with_project
   \<and> objs (executeAction_response 0 (fst (executeAction ''REJECTED'' 0 example_component))
      (snd (executeAction ''REJECTED'' 0 example_component))) 3 = built event_without_project
   \<and> effects (executeAction_response 0 (fst (executeAction ''REJECTED'' 0 example_component))
      (snd (executeAction ''REJECTED'' 0 example_component))) =
       [PatchEvent ''REJECTED'' ''e1'' Null,
        NotifySuccess ''quality-assurance.event.action.saved'',
        GetEventsByTopic ''ENRICH!MORE!PROJECT'',
        ResolveLinks ''e1'', ResolveLinks ''e2'',
        ClearFindByTopicRequests,
        EventsUpdatedNext [2, 3]]
   \<and> \<not> isRunning (objs (executeAction_response 0 (fst (executeAction ''REJECTED'' 0 example_component))
      (snd (executeAction ''REJECTED'' 0 example_component))) 0)
   \<and> totalElementsS (executeAction_response 0 (fst (executeAction ''REJECTED'' 0 example_component))
      (snd (executeAction ''REJECTED'' 0 example_component))) = Defined 2"
proof -
  let ?call = "executeAction ''REJECTED'' 0 example_component"
  let ?mid = "snd ?call"
  let ?resp = "executeAction_response 0 (fst ?call) ?mid"
  let ?pl = "\<lparr>totalElements = 2, page = [event_with_project, event_without_project]\<rparr>"
  let ?evs = "[event_with_project, event_without_project]"
  have call: "?call = (fst ?call, ?mid)" by simp
  have patch: "hasSucceeded (fst ?call)"
    by (simp add: executeAction_closed example_component_def example_rest_def)
  have mid: "restService ?mid = restService example_component" "topic ?mid = topic example_component"
    "findListOptions ?mid = findListOptions example_component"
    "completion ?mid = completion example_component" "nextRef ?mid = nextRef example_component"
    "effects ?mid = effects example_component @
       [PatchEvent ''REJECTED'' (event_id (event (objs example_component 0))) (reason (objs example_component 0))]"
    by (simp_all add: executeAction_closed)
  have before: "nextRef example_component = 2" "effects example_component = []"
    "topic example_component = ''ENRICH!MORE!PROJECT''"
    "event_id (event (objs example_component 0)) = ''e1''" "reason (objs example_component 0) = Null"
    "event_id event_with_project = ''e1''" "event_id event_without_project = ''e2''"
    by (simp_all add: example_component_def eventData_def event_with_project_def
        event_without_project_def Let_def)
  have fetch: "hasSucceeded (rest_getEventsByTopic (restService ?mid) (topic ?mid) (findListOptions ?mid))"
    unfolding mid by (simp add: example_component_def example_rest_def)
  have pl: "payload (rest_getEventsByTopic (restService ?mid) (topic ?mid) (findListOptions ?mid)) = Defined ?pl"
    unfolding mid by (simp add: example_component_def example_rest_def)
  have pg: "?evs = (if 0 < totalElements ?pl then page ?pl else [])"
    by simp
  have evs: "?evs = (if 0 < totalElements ?pl then completion ?mid (page ?pl) else [])"
    unfolding mid by (simp add: example_component_def)
  have some: "0 < totalElements ?pl \<longrightarrow> completion ?mid (page ?pl) \<noteq> []"
    unfolding mid by (simp add: example_component_def)
  have upt: "[2 ..< 2 + length ?evs] = [2, 3]"
    by (simp add: upt_conv_Cons del: upt_Suc)
  from executeAction_succeeded_response [OF call patch, of ?mid ?pl ?evs ?evs] fetch pl pg evs some
  have inst: "eventsUpdated ?resp = [nextRef ?mid ..< nextRef ?mid + length ?evs]
      \<and> (\<forall>i < length ?evs. objs ?resp (nextRef ?mid + i) = built (?evs ! i))
      \<and> effects ?resp =
          effects ?mid @
            [NotifySuccess ''quality-assurance.event.action.saved'',
             GetEventsByTopic (topic ?mid)] @
            map (\<lambda>ev. ResolveLinks (event_id ev)) ?evs @
            [ClearFindByTopicRequests,
             EventsUpdatedNext [nextRef ?mid ..< nextRef ?mid + length ?evs]]
      \<and> \<not> isRunning (objs ?resp 0)
      \<and> totalElementsS ?resp = Defined (totalElements ?pl)"
    by blast
  note inst' = inst [unfolded mid before upt]
  from inst' have every: "\<forall>i < length ?evs. objs ?resp (2 + i) = built (?evs ! i)"
    by blast
  from every [rule_format, of 0]
  have two: "objs ?resp 2 = built event_with_project"
    by simp
  from every [rule_format, of 1]
  have three: "objs ?resp 3 = built event_without_project"
    by simp
  from inst' two three show ?thesis by (simp add: before)
qed

text \<open>
  C8. \<^verbatim>\<open>boundProject\<close> and \<^verbatim>\<open>removeProject\<close> change the project fields of the targeted
  view-model only when their REST call succeeds (to the supplied project, or to no
  project); on failure the project fields keep their values and an error notification
  fires. On both paths \<open>isRunning\<close> ends false, every other object is unchanged, the
  list held by \<^verbatim>\<open>eventsUpdated$\<close> is unchanged, and the effects are the one REST call and
  the one notification: no page is fetched and nothing is pushed on \<^verbatim>\<open>eventsUpdated$\<close>.
\<close>

theorem project_actions_frame:
  "(hasSucceeded (rest_boundProject (restService this) (data_id (objs this a)) pid) \<longrightarrow>
      objs (boundProject a pid ptitle phandle this) a =
        (objs this a)\<lparr>hasProject := True, projectTitle := Defined ptitle, projectId := Defined pid,
                       handle := Defined phandle, isRunning := False\<rparr>
      \<and> effects (boundProject a pid ptitle phandle this) =
          effects this @ [BoundProject (data_id (objs this a)) pid,
                          NotifySuccess ''quality-assurance.event.project.bounded''])
   \<and> (\<not> hasSucceeded (rest_boundProject (restService this) (data_id (objs this a)) pid) \<longrightarrow>
      objs (boundProject a pid ptitle phandle this) a = (objs this a)\<lparr>isRunning := False\<rparr>
      \<and> effects (boundProject a pid ptitle phandle this) =
          effects this @ [BoundProject (data_id (objs this a)) pid,
                          NotifyError ''quality-assurance.event.project.error''])
   \<and> (hasSucceeded (rest_removeProject (restService this) (data_id (objs this a))) \<longrightarrow>
      objs (removeProject a this) a =
        (objs this a)\<lparr>hasProject := False, projectTitle := Null, projectId := Null,
                       handle := Null, isRunning := False\<rparr>
      \<and> effects (removeProject a this) =
          effects this @ [RemoveProject (data_id (objs this a)),
                          NotifySuccess ''quality-assurance.event.project.removed''])
   \<and> (\<not> hasSucceeded (rest_removeProject (restService this) (data_id (objs this a))) \<longrightarrow>
      objs (removeProject a this) a = (objs this a)\<lparr>isRunning := False\<rparr>
      \<and> effects (removeProject a this) =
          effects this @ [RemoveProject (data_id (objs this a)),
                          NotifyError ''quality-assurance.event.project.error''])
   \<and> (\<forall>r. r \<noteq> a \<longrightarrow> objs (boundProject a pid ptitle phandle this) r = objs this r
                   \<and> objs (removeProject a this) r = objs this r)
   \<and> eventsUpdated (boundProject a pid ptitle phandle this) = eventsUpdated this
   \<and> eventsUpdated (removeProject a this) = eventsUpdated this
   \<and> nextRef (boundProject a pid ptitle phandle this) = nextRef this
   \<and> nextRef (removeProject a this) = nextRef this
   \<and> \<not> isRunning (objs (boundProject a pid ptitle phandle this) a)
   \<and> \<not> isRunning (objs (removeProject a this) a)"
  by (simp add: boundProject_def removeProject_def modify_def perform_def Let_def)

theorem project_actions_frame_witness:
  "hasProject (objs (boundProject 1 ''p2'' ''Project Z'' ''123456789/99'' example_component) 1)
   \<and> projectTitle (objs (boundProject 1 ''p2'' ''Project Z'' ''123456789/99'' example_component) 1)
       = Defined ''Project Z''
   \<and> effects (boundProject 1 ''p2'' ''Project Z'' ''123456789/99'' example_component) =
       [BoundProject ''e2'' ''p2'', NotifySuccess ''quality-assurance.event.project.bounded'']
   \<and> objs (boundProject 1 ''p2'' ''Project Z'' ''123456789/99'' example_component) 0 = objs example_component 0
   \<and> \<not> hasProject (objs (boundProject 1 ''p9'' ''Project Z'' ''123456789/99'' example_component) 1)
   \<and> effects (boundProject 1 ''p9'' ''Project Z'' ''123456789/99'' example_component) =
       [BoundProject ''e2'' ''p9'', NotifyError ''quality-assurance.event.project.error'']
   \<and> \<not> hasProject (objs (removeProject 0 example_component) 0)
   \<and> projectTitle (objs (removeProject 0 example_component) 0) = Null
   \<and> objs (removeProject 0 example_component) 1 = objs example_component 1
   \<and> hasProject (objs (removeProject 1 (boundProject 1 ''p2'' ''Project Z'' ''123456789/99'' example_component)) 1)
   \<and> eventsUpdated (removeProject 0 example_component) = [0, 1]"
proof -
  let ?bound = "boundProject 1 ''p2'' ''Project Z'' ''123456789/99'' example_component"
  have ids: "data_id (objs example_component 0) = ''e1''" "data_id (objs example_component 1) = ''e2''"
    "effects example_component = []" "eventsUpdated example_component = [0, 1]"
    "\<not> hasProject (objs example_component 1)"
    by (simp_all add: example_component_def eventData_def event_with_project_def
        event_without_project_def Let_def)
  have rest: "restService example_component = example_rest"
    by (simp add: example_component_def)
  have ok: "hasSucceeded (rest_boundProject example_rest ''e2'' ''p2'')"
    "\<not> hasSucceeded (rest_boundProject example_rest ''e2'' ''p9'')"
    "hasSucceeded (rest_removeProject example_rest ''e1'')"
    "\<not> hasSucceeded (rest_removeProject example_rest ''e2'')"
    by (simp_all add: example_rest_def)
  have after: "restService ?bound = example_rest" "data_id (objs ?bound 1) = ''e2''"
    by (simp_all add: boundProject_def modify_def perform_def Let_def example_component_def
        eventData_def event_without_project_def)
  note b1 = project_actions_frame [of example_component 1 "''p2''" "''Project Z''" "''123456789/99''",
      unfolded rest ids]
  note b2 = project_actions_frame [of example_component 1 "''p9''" "''Project Z''" "''123456789/99''",
      unfolded rest ids]
  note r0 = project_actions_frame [of example_component 0 "''p2''" "''Project Z''" "''123456789/99''",
      unfolded rest ids]
  note r1 = project_actions_frame [of ?bound 1 "''p2''" "''Project Z''" "''123456789/99''",
      unfolded after]
  from b1 ok have c1: "hasProject (objs ?bound 1) \<and> projectTitle (objs ?bound 1) = Defined ''Project Z''
      \<and> effects ?bound = [BoundProject ''e2'' ''p2'', NotifySuccess ''quality-assurance.event.project.bounded'']
      \<and> objs ?bound 0 = objs example_component 0"
    by simp
  from b2 ok ids have c2: "\<not> hasProject (objs (boundProject 1 ''p9'' ''Project Z'' ''123456789/99'' example_component) 1)
      \<and> effects (boundProject 1 ''p9'' ''Project Z'' ''123456789/99'' example_component) =
       [BoundProject ''e2'' ''p9'', NotifyError ''quality-assurance.event.project.error'']"
    by simp
  from r0 ok have c3: "\<not> hasProject (objs (removeProject 0 example_component) 0)
      \<and> projectTitle (objs (removeProject 0 example_component) 0) = Null
      \<and> objs (removeProject 0 example_component) 1 = objs example_component 1
      \<and> eventsUpdated (removeProject 0 example_component) = [0, 1]"
    by simp
  from r1 ok c1 have c4: "hasProject (objs (removeProject 1 ?bound) 1)"
    by simp
  from c1 c2 c3 c4 show ?thesis by blast
qed

end
